theory Spec2Isabelle
  imports Complex_Main "HOL-Library.Multiset"
begin

section \<open>Country API service: the data model\<close>

text \<open>
  The service of \<^verbatim>\<open>main.py\<close> keeps one table \<^verbatim>\<open>countries\<close> in PostgreSQL, refreshes it
  from two HTTP sources and answers queries on it. Each handler becomes a function from
  the request's inputs and the persistent state to a result and the new state. A handler
  that raises returns \<open>Inl\<close> of the exception.

  Numbers: \<^verbatim>\<open>population\<close> is a Python \<^verbatim>\<open>int\<close> (\<open>int\<close>). A rate is a JSON number, taken
  here as a rational (\<open>rat\<close>). An estimated GDP is a Python \<^verbatim>\<open>float\<close>, the rounded result
  of a true division, which raises \<^verbatim>\<open>OverflowError\<close> on an integer beyond the range of
  \<^verbatim>\<open>float\<close>; the model keeps the exact quotient in its place. It is right about whether
  an estimate is there, and no statement below is about the value of one. A point in
  time is a \<open>nat\<close> (microseconds), standing for the ISO-8601 text the code stores.
  Strings are lists of characters; letter case is the ASCII one.
\<close>

type_synonym timestamp = nat

text \<open>The keys the code reads from one element of the Rest Countries response
  (\<^verbatim>\<open>country.get(...)\<close>: \<open>None\<close> when the key is missing or \<^verbatim>\<open>null\<close>).\<close>

record currency =
  code :: "string option"

record raw_country =
  raw_name :: "string option"
  raw_capital :: "string option"
  raw_region :: "string option"
  raw_population :: "int option"
  raw_flag :: "string option"
  raw_currencies :: "currency list option"

text \<open>The exchange-rate response when it is a JSON object whose key \<^verbatim>\<open>"rates"\<close> is
  missing (\<open>None\<close>) or holds an object of rates. The other decoded responses are
  \<open>exchange_rate_body\<close> below.\<close>

record exchange_rate_data =
  rates :: "(string \<rightharpoonup> rat) option"

text \<open>
  Modelled from the spec: the declaration of table \<^verbatim>\<open>countries\<close> is not in the sources.
  Its columns are the ten the handlers read by position, \<^verbatim>\<open>name\<close> is unique (the
  \<^verbatim>\<open>ON CONFLICT (name)\<close> of the upsert needs it) and \<^verbatim>\<open>id\<close> is "assigned by the store on
  first insert, stable across updates": a counter supplies it.
\<close>

record country =
  country_id :: nat
  name :: string
  capital :: "string option"
  region :: "string option"
  population :: int
  currency_code :: "string option"
  exchange_rate :: "rat option"
  estimated_gdp :: "rat option"
  flag_url :: "string option"
  last_refreshed_at :: timestamp

record countries_table =
  table_rows :: "country list"
  next_id :: nat

text \<open>What \<^verbatim>\<open>draw.text\<close> writes on the 800 x 400 canvas, by position.\<close>

datatype caption =
    Literal string
  | Total_countries nat
  | Name_gdp string rat
  | Refreshed_at timestamp

type_synonym image = "((nat \<times> nat) \<times> caption) list"

text \<open>The persistent state: the committed table and the file \<^verbatim>\<open>cache/summary.png\<close>.\<close>

record world =
  countries :: countries_table
  summary_png :: "image option"

text \<open>
  What one refresh request reads from outside: the two decoded responses (\<open>None\<close> when
  \<^verbatim>\<open>requests.get\<close> or \<^verbatim>\<open>response.json()\<close> raises), the clock, the random source behind
  \<^verbatim>\<open>randint\<close> (its \<open>k\<close>-th raw draw) and whether the cache directory can be written.
\<close>

record env =
  rest_countries :: "raw_country list option"
  exchange_rates :: "exchange_rate_data option"
  utc_now :: timestamp
  random_source :: "nat \<Rightarrow> nat"
  cache_writable :: bool

text \<open>\<^verbatim>\<open>HTTPException(status_code, detail)\<close>, and any other exception, which the
  framework answers with status 500.\<close>

datatype detail =
    Error_only string
  | Error_details string string
  | Error_field string string string

datatype failure =
    HTTPException nat detail
  | Unhandled string

fun status_code :: "failure \<Rightarrow> nat" where
  "status_code (HTTPException s d) = s"
| "status_code (Unhandled e) = 500"

section \<open>Refresh\<close>

subsection \<open>Validation\<close>

text \<open>\<^verbatim>\<open>if not name\<close> holds for a missing name and for the empty string; then
  \<^verbatim>\<open>if population is None or population < 0\<close>. A record that passes gives its name and
  population.\<close>

definition validate :: "raw_country \<Rightarrow> failure + string \<times> int" where
  "validate c =
     (case raw_name c of
        None \<Rightarrow>
          Inl (HTTPException 400 (Error_field ''Validation failed'' ''name'' ''is required''))
      | Some n \<Rightarrow>
          if n = [] then
            Inl (HTTPException 400 (Error_field ''Validation failed'' ''name'' ''is required''))
          else
            (case raw_population c of
               None \<Rightarrow>
                 Inl (HTTPException 400
                       (Error_field ''Validation failed'' ''population'' ''must be non-negative''))
             | Some p \<Rightarrow>
                 if p < 0 then
                   Inl (HTTPException 400
                         (Error_field ''Validation failed'' ''population'' ''must be non-negative''))
                 else Inr (n, p)))"

subsection \<open>Currency logic\<close>

text \<open>\<^verbatim>\<open>randint(a, b)\<close> on a raw draw: an integer of \<open>[a, b]\<close>.\<close>

definition randint :: "int \<Rightarrow> int \<Rightarrow> nat \<Rightarrow> int" where
  "randint a b raw = a + int (raw mod nat (b - a + 1))"

text \<open>\<^verbatim>\<open>exchange_rate_data.get("rates", {})\<close> on such a response.\<close>

definition rate_table :: "exchange_rate_data \<Rightarrow> (string \<rightharpoonup> rat)" where
  "rate_table d = (case rates d of None \<Rightarrow> Map.empty | Some m \<Rightarrow> m)"

text \<open>
  Lines 76 to 86. The result is \<^verbatim>\<open>currency_code\<close>, \<^verbatim>\<open>exchange_rate\<close>, \<^verbatim>\<open>estimated_gdp\<close>
  and the number of draws taken so far. \<^verbatim>\<open>if currency_code\<close> fails on \<^verbatim>\<open>None\<close> and on the
  empty string, \<^verbatim>\<open>if exchange_rate\<close> on \<^verbatim>\<open>None\<close> and on zero. The estimate is the exact
  quotient, where Python has the \<^verbatim>\<open>float\<close> nearest to it.
\<close>

definition currency_logic ::
  "currency list option \<Rightarrow> exchange_rate_data \<Rightarrow> int \<Rightarrow> (nat \<Rightarrow> nat) \<Rightarrow> nat
     \<Rightarrow> (string option \<times> rat option \<times> rat option) \<times> nat" where
  "currency_logic currencies exchange_rate_data pop src k =
     (case currencies of
        None \<Rightarrow> ((None, None, None), k)
      | Some [] \<Rightarrow> ((None, None, None), k)
      | Some (c0 # _) \<Rightarrow>
          (case code c0 of
             None \<Rightarrow> ((None, None, None), k)
           | Some cc \<Rightarrow>
               if cc = [] then ((Some cc, None, None), k)
               else
                 (case rate_table exchange_rate_data cc of
                    None \<Rightarrow> ((Some cc, None, None), k)
                  | Some rate \<Rightarrow>
                      if rate = 0 then ((Some cc, Some rate, None), k)
                      else ((Some cc, Some rate,
                             Some (of_int (pop * randint 1000 2000 (src k)) / rate)), Suc k))))"

subsection \<open>Insert or update\<close>

text \<open>The \<^verbatim>\<open>INSERT ... ON CONFLICT (name) DO UPDATE\<close> of lines 89 to 102: a row of that
  name keeps its id and takes the eight other values, otherwise a new row is added.\<close>

definition upsert ::
  "string \<Rightarrow> string option \<Rightarrow> string option \<Rightarrow> int \<Rightarrow> string option \<Rightarrow> rat option
     \<Rightarrow> rat option \<Rightarrow> string option \<Rightarrow> timestamp \<Rightarrow> countries_table \<Rightarrow> countries_table" where
  "upsert n cap reg pop cc rate gdp flag ts t =
     (if \<exists>r \<in> set (table_rows t). name r = n then
        t\<lparr>table_rows :=
            map (\<lambda>r. if name r = n
                      then r\<lparr>capital := cap, region := reg, population := pop,
                             currency_code := cc, exchange_rate := rate,
                             estimated_gdp := gdp, flag_url := flag, last_refreshed_at := ts\<rparr>
                      else r)
                (table_rows t)\<rparr>
      else
        t\<lparr>table_rows := table_rows t @
             [\<lparr>country_id = next_id t, name = n, capital = cap, region = reg,
               population = pop, currency_code = cc, exchange_rate = rate,
               estimated_gdp = gdp, flag_url = flag, last_refreshed_at = ts\<rparr>],
           next_id := Suc (next_id t)\<rparr>)"

subsection \<open>The loop over the fetched countries\<close>

text \<open>The \<^verbatim>\<open>for country in country_data\<close> loop, on the open transaction's table and the
  number of draws taken. The first record that fails validation raises.\<close>

fun refresh_loop ::
  "exchange_rate_data \<Rightarrow> timestamp \<Rightarrow> (nat \<Rightarrow> nat) \<Rightarrow> raw_country list
     \<Rightarrow> countries_table \<times> nat \<Rightarrow> failure + countries_table \<times> nat" where
  "refresh_loop exchange_rate_data ts src [] st = Inr st"
| "refresh_loop exchange_rate_data ts src (c # cs) (t, k) =
     (case validate c of
        Inl err \<Rightarrow> Inl err
      | Inr (n, pop) \<Rightarrow>
          (case currency_logic (raw_currencies c) exchange_rate_data pop src k of
             ((cc, rate, gdp), k') \<Rightarrow>
               refresh_loop exchange_rate_data ts src cs
                 (upsert n (raw_capital c) (raw_region c) pop cc rate gdp (raw_flag c) ts t,
                  k')))"

text \<open>The names a batch writes: those of its records that have one.\<close>

fun batch_names :: "raw_country list \<Rightarrow> string set" where
  "batch_names [] = {}"
| "batch_names (c # cs) =
     (case raw_name c of None \<Rightarrow> batch_names cs | Some n \<Rightarrow> insert n (batch_names cs))"

subsection \<open>Ordering rows\<close>

text \<open>
  \<^verbatim>\<open>ORDER BY\<close> as an insertion sort by a comparison of rows. PostgreSQL sorts \<^verbatim>\<open>NULL\<close> as
  larger than every value: last under \<^verbatim>\<open>ASC\<close>, first under \<^verbatim>\<open>DESC\<close>. Rows that compare
  equal keep their order here; PostgreSQL promises no order among them.
\<close>

fun insert_row :: "('a \<Rightarrow> 'a \<Rightarrow> bool) \<Rightarrow> 'a \<Rightarrow> 'a list \<Rightarrow> 'a list" where
  "insert_row le x [] = [x]"
| "insert_row le x (y # ys) = (if le x y then x # y # ys else y # insert_row le x ys)"

fun order_by :: "('a \<Rightarrow> 'a \<Rightarrow> bool) \<Rightarrow> 'a list \<Rightarrow> 'a list" where
  "order_by le [] = []"
| "order_by le (x # xs) = insert_row le x (order_by le xs)"

fun gdp_asc :: "rat option \<Rightarrow> rat option \<Rightarrow> bool" where
  "gdp_asc a None = True"
| "gdp_asc None (Some y) = False"
| "gdp_asc (Some x) (Some y) = (x \<le> y)"

definition gdp_desc :: "rat option \<Rightarrow> rat option \<Rightarrow> bool" where
  "gdp_desc a b = gdp_asc b a"

subsection \<open>The summary image\<close>

text \<open>Python's \<^verbatim>\<open>round(gdp, 2)\<close>: to the nearest hundredth, a tie to the even one.\<close>

definition round2 :: "rat \<Rightarrow> rat" where
  "round2 x =
     (let f = \<lfloor>x * 100\<rfloor>; d = x * 100 - of_int f
      in of_int (if d < 1 / 2 then f else if 1 / 2 < d then f + 1
                 else if even f then f else f + 1) / 100)"

text \<open>\<^verbatim>\<open>SELECT name, estimated_gdp FROM countries WHERE estimated_gdp IS NOT NULL
  ORDER BY estimated_gdp DESC LIMIT 5\<close>\<close>

definition top_gdp :: "countries_table \<Rightarrow> (string \<times> rat) list" where
  "top_gdp t =
     take 5 (order_by (\<lambda>a b. snd b \<le> snd a)
               (List.map_filter (\<lambda>r. map_option (Pair (name r)) (estimated_gdp r))
                  (table_rows t)))"

fun draw_top :: "nat \<Rightarrow> (string \<times> rat) list \<Rightarrow> image" where
  "draw_top y_offset [] = []"
| "draw_top y_offset ((n, gdp) # rest) =
     ((50, y_offset), Name_gdp n (round2 gdp)) # draw_top (y_offset + 25) rest"

definition summary_image :: "countries_table \<Rightarrow> timestamp \<Rightarrow> image" where
  "summary_image t ts =
     [((50, 50), Literal ''Country Summary''),
      ((50, 100), Total_countries (length (table_rows t))),
      ((50, 140), Literal ''Top 5 countries by estimated GDP'')]
     @ draw_top 175 (top_gdp t)
     @ [((50, 320), Refreshed_at ts)]"

subsection \<open>The handler\<close>

text \<open>
  \<^verbatim>\<open>POST /countries/refresh\<close>. The loop works inside a transaction: the table of the
  state changes at \<^verbatim>\<open>conn.commit()\<close> only, which an exception raised earlier never
  reaches. \<^verbatim>\<open>img.save\<close> raises when the cache cannot be written, after the commit.
\<close>

definition refresh_countries :: "env \<Rightarrow> world \<Rightarrow> (failure + unit) \<times> world" where
  "refresh_countries e w =
     (case rest_countries e of
        None \<Rightarrow>
          (Inl (HTTPException 503 (Error_details ''External data source unavailable''
                  ''Could not fetch data from Rest Countries'')), w)
      | Some country_data \<Rightarrow>
          (case exchange_rates e of
             None \<Rightarrow>
               (Inl (HTTPException 503 (Error_details ''External data source unavailable''
                       ''Could not fetch data from Exchange Rate API'')), w)
           | Some exchange_rate_data \<Rightarrow>
               (case refresh_loop exchange_rate_data (utc_now e) (random_source e)
                       country_data (countries w, 0) of
                  Inl err \<Rightarrow> (Inl err, w)
                | Inr (t, k) \<Rightarrow>
                    if cache_writable e
                    then (Inr (), w\<lparr>countries := t,
                                    summary_png := Some (summary_image t (utc_now e))\<rparr>)
                    else (Inl (Unhandled ''OSError''), w\<lparr>countries := t\<rparr>))))"

subsection \<open>Any decoded exchange-rate response\<close>

text \<open>
  \<open>exchange_rate_data\<close> above is the decoded response when it is a JSON object whose
  \<^verbatim>\<open>"rates"\<close> is missing or is itself an object. Every other decoded response is here: the
  body may be no object (\<^verbatim>\<open>null\<close>, a list, a string, a number, a boolean), and the value of
  \<^verbatim>\<open>"rates"\<close> likewise. Such a value has no method \<^verbatim>\<open>get\<close>.
\<close>

datatype rates_value =
    Rates_object "string \<rightharpoonup> rat"
  | Rates_not_object

datatype exchange_rate_body =
    Body_object "rates_value option"
  | Body_not_object

definition object_body :: "exchange_rate_data \<Rightarrow> exchange_rate_body" where
  "object_body d = Body_object (map_option Rates_object (rates d))"

text \<open>Line 84, \<^verbatim>\<open>exchange_rate_data.get("rates", {}).get(currency_code)\<close>: the default
  \<^verbatim>\<open>{}\<close> stands in for a missing key only, and \<^verbatim>\<open>.get\<close> on a value that is no object raises
  \<^verbatim>\<open>AttributeError\<close>.\<close>

definition lookup_rate :: "exchange_rate_body \<Rightarrow> string \<Rightarrow> failure + rat option" where
  "lookup_rate body cc =
     (case body of
        Body_not_object \<Rightarrow> Inl (Unhandled ''AttributeError'')
      | Body_object None \<Rightarrow> Inr None
      | Body_object (Some Rates_not_object) \<Rightarrow> Inl (Unhandled ''AttributeError'')
      | Body_object (Some (Rates_object m)) \<Rightarrow> Inr (m cc))"

text \<open>Lines 76 to 86 again, with that lookup; line 84 is reached only for a code that is
  not empty.\<close>

definition currency_logic_decoded ::
  "currency list option \<Rightarrow> exchange_rate_body \<Rightarrow> int \<Rightarrow> (nat \<Rightarrow> nat) \<Rightarrow> nat
     \<Rightarrow> failure + (string option \<times> rat option \<times> rat option) \<times> nat" where
  "currency_logic_decoded currencies body pop src k =
     (case currencies of
        None \<Rightarrow> Inr ((None, None, None), k)
      | Some [] \<Rightarrow> Inr ((None, None, None), k)
      | Some (c0 # _) \<Rightarrow>
          (case code c0 of
             None \<Rightarrow> Inr ((None, None, None), k)
           | Some cc \<Rightarrow>
               if cc = [] then Inr ((Some cc, None, None), k)
               else
                 (case lookup_rate body cc of
                    Inl err \<Rightarrow> Inl err
                  | Inr None \<Rightarrow> Inr ((Some cc, None, None), k)
                  | Inr (Some rate) \<Rightarrow>
                      if rate = 0 then Inr ((Some cc, Some rate, None), k)
                      else Inr ((Some cc, Some rate,
                                 Some (of_int (pop * randint 1000 2000 (src k)) / rate)),
                                Suc k))))"

fun refresh_loop_decoded ::
  "exchange_rate_body \<Rightarrow> timestamp \<Rightarrow> (nat \<Rightarrow> nat) \<Rightarrow> raw_country list
     \<Rightarrow> countries_table \<times> nat \<Rightarrow> failure + countries_table \<times> nat" where
  "refresh_loop_decoded body ts src [] st = Inr st"
| "refresh_loop_decoded body ts src (c # cs) (t, k) =
     (case validate c of
        Inl err \<Rightarrow> Inl err
      | Inr (n, pop) \<Rightarrow>
          (case currency_logic_decoded (raw_currencies c) body pop src k of
             Inl err \<Rightarrow> Inl err
           | Inr ((cc, rate, gdp), k') \<Rightarrow>
               refresh_loop_decoded body ts src cs
                 (upsert n (raw_capital c) (raw_region c) pop cc rate gdp (raw_flag c) ts t,
                  k')))"

text \<open>The handler on a decoded response \<open>body\<close> of the exchange-rate source; the field
  \<open>exchange_rates\<close> of the environment is not read.\<close>

definition refresh_countries_decoded ::
  "exchange_rate_body \<Rightarrow> env \<Rightarrow> world \<Rightarrow> (failure + unit) \<times> world" where
  "refresh_countries_decoded body e w =
     (case rest_countries e of
        None \<Rightarrow>
          (Inl (HTTPException 503 (Error_details ''External data source unavailable''
                  ''Could not fetch data from Rest Countries'')), w)
      | Some country_data \<Rightarrow>
          (case refresh_loop_decoded body (utc_now e) (random_source e)
                  country_data (countries w, 0) of
             Inl err \<Rightarrow> (Inl err, w)
           | Inr (t, k) \<Rightarrow>
               if cache_writable e
               then (Inr (), w\<lparr>countries := t,
                               summary_png := Some (summary_image t (utc_now e))\<rparr>)
               else (Inl (Unhandled ''OSError''), w\<lparr>countries := t\<rparr>)))"

section \<open>Queries\<close>

subsection \<open>ILIKE\<close>

text \<open>\<^verbatim>\<open>str.lower()\<close> and the case folding of \<^verbatim>\<open>ILIKE\<close>, on ASCII letters.\<close>

definition lower_char :: "char \<Rightarrow> char" where
  "lower_char c =
     (case map_of (zip ''ABCDEFGHIJKLMNOPQRSTUVWXYZ'' ''abcdefghijklmnopqrstuvwxyz'') c of
        None \<Rightarrow> c
      | Some l \<Rightarrow> l)"

definition lower :: "string \<Rightarrow> string" where
  "lower s = map lower_char s"

text \<open>
  A \<^verbatim>\<open>LIKE\<close> pattern against a text: \<^verbatim>\<open>%\<close> stands for any run of characters, \<^verbatim>\<open>_\<close> for
  any one character, a backslash makes the next pattern character literal. A pattern
  that ends in a lone backslash matches nothing here; PostgreSQL rejects it when the
  matching reaches that backslash, which \<open>like_pattern_ok\<close> excludes.
\<close>

fun like_match :: "string \<Rightarrow> string \<Rightarrow> bool" where
  "like_match [] t = (t = [])"
| "like_match (p # ps) t =
     (if p = CHR ''%'' then
        like_match ps t \<or> (case t of [] \<Rightarrow> False | _ # t' \<Rightarrow> like_match (p # ps) t')
      else if p = CHR ''_'' then
        (case t of [] \<Rightarrow> False | _ # t' \<Rightarrow> like_match ps t')
      else if p = CHR 0x5C then
        (case ps of
           [] \<Rightarrow> False
         | q # qs \<Rightarrow> (case t of [] \<Rightarrow> False | c # t' \<Rightarrow> q = c \<and> like_match qs t'))
      else
        (case t of [] \<Rightarrow> False | c # t' \<Rightarrow> p = c \<and> like_match ps t'))"

fun like_pattern_ok :: "string \<Rightarrow> bool" where
  "like_pattern_ok [] = True"
| "like_pattern_ok [p] = (p \<noteq> CHR 0x5C)"
| "like_pattern_ok (p # q # ps) =
     (if p = CHR 0x5C then like_pattern_ok ps else like_pattern_ok (q # ps))"

definition ilike :: "string \<Rightarrow> string \<Rightarrow> bool" where
  "ilike pattern text = like_match (lower pattern) (lower text)"

text \<open>A pattern with none of the three special characters.\<close>

definition like_literal :: "string \<Rightarrow> bool" where
  "like_literal p = (\<forall>c \<in> set p. c \<noteq> CHR ''%'' \<and> c \<noteq> CHR ''_'' \<and> c \<noteq> CHR 0x5C)"

subsection \<open>Listing with filters\<close>

text \<open>Python's truth of an optional string parameter: given and not empty.\<close>

fun truthy :: "string option \<Rightarrow> bool" where
  "truthy None = False"
| "truthy (Some s) = (s \<noteq> [])"

text \<open>
  \<^verbatim>\<open>AND column ILIKE '{param}'\<close>, added when the parameter is truthy. A \<^verbatim>\<open>NULL\<close> column
  matches no pattern. The parameter is pasted into the statement between quotes: the
  clause below is what the statement means when the parameter has no quote character
  (\<open>sql_text\<close>); another parameter changes the statement itself.
\<close>

definition and_ilike ::
  "(country \<Rightarrow> string option) \<Rightarrow> string option \<Rightarrow> country list \<Rightarrow> country list" where
  "and_ilike column param rs =
     (case param of
        None \<Rightarrow> rs
      | Some p \<Rightarrow>
          if p = [] then rs
          else filter (\<lambda>r. case column r of None \<Rightarrow> False | Some v \<Rightarrow> ilike p v) rs)"

definition sql_text :: "string option \<Rightarrow> bool" where
  "sql_text param =
     (case param of
        None \<Rightarrow> True
      | Some p \<Rightarrow> CHR 0x27 \<notin> set p \<and> like_pattern_ok p)"

text \<open>The \<^verbatim>\<open>ORDER BY\<close> clause that \<^verbatim>\<open>sort\<close> adds.\<close>

definition order_clause :: "string option \<Rightarrow> country list \<Rightarrow> country list" where
  "order_clause sort_p rs =
     (case sort_p of
        None \<Rightarrow> rs
      | Some s \<Rightarrow>
          if s = [] then rs
          else if lower s = ''gdp_desc''
          then order_by (\<lambda>a b. gdp_desc (estimated_gdp a) (estimated_gdp b)) rs
          else if lower s = ''gdp_asc''
          then order_by (\<lambda>a b. gdp_asc (estimated_gdp a) (estimated_gdp b)) rs
          else rs)"

text \<open>\<^verbatim>\<open>GET /countries\<close>. Without \<^verbatim>\<open>ORDER BY\<close> the rows come in the table's order.\<close>

definition get_countries_with_filtering ::
  "string option \<Rightarrow> string option \<Rightarrow> string option \<Rightarrow> world \<Rightarrow> failure + country list" where
  "get_countries_with_filtering region_p currency_p sort_p w =
     (let results =
            (if truthy region_p \<or> truthy currency_p \<or> truthy sort_p
             then order_clause sort_p
                    (and_ilike currency_code currency_p
                       (and_ilike region region_p (table_rows (countries w))))
             else table_rows (countries w))
      in if results = [] then Inl (HTTPException 404 (Error_only ''Country not found''))
         else Inr results)"

subsection \<open>One country, deletion, status\<close>

text \<open>\<^verbatim>\<open>GET /countries/{name}\<close>: \<^verbatim>\<open>WHERE name ILIKE %s\<close>, then \<^verbatim>\<open>fetchone()\<close>, the first row
  of the result.\<close>

definition get_country_by_name :: "string \<Rightarrow> world \<Rightarrow> failure + country" where
  "get_country_by_name n w =
     (case find (\<lambda>r. ilike n (name r)) (table_rows (countries w)) of
        None \<Rightarrow> Inl (HTTPException 404 (Error_only ''Country not found''))
      | Some r \<Rightarrow> Inr r)"

text \<open>\<^verbatim>\<open>DELETE /countries/{name}\<close>: \<^verbatim>\<open>WHERE name = %s\<close> in the lookup and in the deletion.\<close>

definition delete_country_by_name :: "string \<Rightarrow> world \<Rightarrow> (failure + unit) \<times> world" where
  "delete_country_by_name n w =
     (case find (\<lambda>r. name r = n) (table_rows (countries w)) of
        None \<Rightarrow> (Inl (HTTPException 404 (Error_only ''Country not found'')), w)
      | Some r \<Rightarrow>
          (Inr (), w\<lparr>countries := (countries w)
                      \<lparr>table_rows := filter (\<lambda>r. name r \<noteq> n) (table_rows (countries w))\<rparr>\<rparr>))"

text \<open>\<^verbatim>\<open>GET /status\<close>: \<^verbatim>\<open>COUNT(*)\<close> and \<^verbatim>\<open>MAX(last_refreshed_at)\<close>, which is \<^verbatim>\<open>NULL\<close> on an
  empty table.\<close>

record status =
  total_countries :: nat
  status_last_refreshed_at :: "timestamp option"

definition get_status :: "world \<Rightarrow> status" where
  "get_status w =
     \<lparr>total_countries = length (table_rows (countries w)),
      status_last_refreshed_at =
        (case table_rows (countries w) of
           [] \<Rightarrow> None
         | r # rs \<Rightarrow> Some (fold max (map last_refreshed_at rs) (last_refreshed_at r)))\<rparr>"

section \<open>Sample data\<close>

text \<open>Records, rows and states on which the statements below are evaluated.\<close>

definition sample_country :: "string option \<Rightarrow> int option \<Rightarrow> string option \<Rightarrow> raw_country" where
  "sample_country n p cc =
     \<lparr>raw_name = n, raw_capital = None, raw_region = Some ''Asia'', raw_population = p,
      raw_flag = None, raw_currencies = Some [\<lparr>code = cc\<rparr>]\<rparr>"

definition sample_env :: "raw_country list \<Rightarrow> (string \<rightharpoonup> rat) option \<Rightarrow> bool \<Rightarrow> env" where
  "sample_env cs rs writable =
     \<lparr>rest_countries = Some cs, exchange_rates = Some \<lparr>rates = rs\<rparr>, utc_now = 1700000000,
      random_source = (\<lambda>k. 5 + k), cache_writable = writable\<rparr>"

definition sample_row :: "nat \<Rightarrow> string \<Rightarrow> rat option \<Rightarrow> country" where
  "sample_row i n gdp =
     \<lparr>country_id = i, name = n, capital = None, region = Some ''Asia'', population = 1000,
      currency_code = None, exchange_rate = None, estimated_gdp = gdp, flag_url = None,
      last_refreshed_at = 1600000000\<rparr>"

definition sample_world :: "country list \<Rightarrow> world" where
  "sample_world rs =
     \<lparr>countries = \<lparr>table_rows = rs, next_id = Suc (length rs)\<rparr>, summary_png = None\<rparr>"

definition sample_india :: raw_country where
  "sample_india = sample_country (Some ''India'') (Some 1000) (Some ''INR'')"

definition sample_wakanda :: raw_country where
  "sample_wakanda = sample_country (Some ''Wakanda'') (Some (- 5)) (Some ''XYZ'')"

definition sample_usa :: raw_country where
  "sample_usa = sample_country (Some ''United States'') (Some 2000) (Some ''USD'')"

definition sample_rates :: "(string \<rightharpoonup> rat) option" where
  "sample_rates = Some [''INR'' \<mapsto> 80, ''USD'' \<mapsto> 0]"

definition sample_india_row :: country where
  "sample_india_row =
     \<lparr>country_id = 1, name = ''India'', capital = None, region = Some ''Asia'',
      population = 1000, currency_code = Some ''INR'', exchange_rate = Some 80,
      estimated_gdp = Some (25125 / 2), flag_url = None, last_refreshed_at = 1700000000\<rparr>"

definition sample_usa_row :: country where
  "sample_usa_row =
     \<lparr>country_id = 1, name = ''United States'', capital = None, region = Some ''Asia'',
      population = 2000, currency_code = Some ''USD'', exchange_rate = Some 0,
      estimated_gdp = None, flag_url = None, last_refreshed_at = 1700000000\<rparr>"

section \<open>Properties of the refresh\<close>

lemma batch_names_iff: "n \<in> batch_names cs \<longleftrightarrow> (\<exists>c \<in> set cs. raw_name c = Some n)"
  by (induction cs) (auto split: option.splits)

lemma batch_names_Cons:
  "raw_name c = Some n \<Longrightarrow> batch_names (c # cs) = insert n (batch_names cs)"
  by simp

lemma randint_range: "a \<le> b \<Longrightarrow> a \<le> randint a b raw \<and> randint a b raw \<le> b"
proof -
  assume ab: "a \<le> b"
  then have pos: "0 < nat (b - a + 1)" by simp
  have "raw mod nat (b - a + 1) < nat (b - a + 1)"
    using pos by (rule mod_less_divisor)
  then have "int (raw mod nat (b - a + 1)) < b - a + 1"
    using ab by linarith
  then show ?thesis
    by (simp add: randint_def)
qed

lemma randint_onto:
  assumes "a \<le> m" and "m \<le> b"
  shows "randint a b (nat (m - a)) = m"
proof -
  from assms have "nat (m - a) < nat (b - a + 1)" by linarith
  then have "nat (m - a) mod nat (b - a + 1) = nat (m - a)" by simp
  with assms show ?thesis by (simp add: randint_def)
qed

lemma validate_Inr:
  "validate c = Inr (n, p) \<longleftrightarrow> raw_name c = Some n \<and> n \<noteq> [] \<and> raw_population c = Some p \<and> 0 \<le> p"
  by (auto simp: validate_def split: option.splits)

lemma currency_logic_cases:
  assumes "currency_logic cur d pop src k = ((cc, rate, gdp), k')"
  shows "(gdp \<noteq> None \<longleftrightarrow>
           (\<exists>c x. cc = Some c \<and> c \<noteq> [] \<and> rate_table d c = Some x \<and> x \<noteq> 0))
       \<and> (rate = (case cc of None \<Rightarrow> None | Some c \<Rightarrow> if c = [] then None else rate_table d c))
       \<and> (gdp \<noteq> None \<longrightarrow> k' = Suc k \<and>
            gdp = Some (of_int (pop * randint 1000 2000 (src k)) / the rate))
       \<and> (gdp = None \<longrightarrow> k' = k)"
proof (cases cur)
  case None
  with assms show ?thesis by (simp add: currency_logic_def)
next
  case (Some cl)
  show ?thesis
  proof (cases cl)
    case Nil
    with Some assms show ?thesis by (simp add: currency_logic_def)
  next
    case (Cons c0 rest)
    show ?thesis
    proof (cases "code c0")
      case None
      with Some Cons assms show ?thesis by (simp add: currency_logic_def)
    next
      case cc0: (Some x)
      show ?thesis
      proof (cases "x = []")
        case True
        with Some Cons cc0 assms have "cc = Some x \<and> rate = None \<and> gdp = None \<and> k' = k"
          by (simp add: currency_logic_def)
        with True show ?thesis by simp
      next
        case ne: False
        show ?thesis
        proof (cases "rate_table d x")
          case None
          with Some Cons cc0 ne assms have "cc = Some x \<and> rate = None \<and> gdp = None \<and> k' = k"
            by (simp add: currency_logic_def)
          with None ne show ?thesis by simp
        next
          case rt: (Some y)
          show ?thesis
          proof (cases "y = 0")
            case True
            with Some Cons cc0 ne rt assms
            have "cc = Some x \<and> rate = Some y \<and> gdp = None \<and> k' = k"
              by (simp add: currency_logic_def)
            with True rt ne show ?thesis by simp
          next
            case False
            with Some Cons cc0 ne rt assms
            have "cc = Some x \<and> rate = Some y \<and> k' = Suc k
                \<and> gdp = Some (of_int (pop * randint 1000 2000 (src k)) / y)"
              by (simp add: currency_logic_def)
            with False rt ne show ?thesis by simp
          qed
        qed
      qed
    qed
  qed
qed

lemma upsert_rows:
  assumes "r \<in> set (table_rows (upsert n cap reg pop cc rate gdp flag ts t))"
  shows "(name r \<noteq> n \<and> r \<in> set (table_rows t))
       \<or> (name r = n \<and> capital r = cap \<and> region r = reg \<and> population r = pop
            \<and> currency_code r = cc \<and> exchange_rate r = rate \<and> estimated_gdp r = gdp
            \<and> flag_url r = flag \<and> last_refreshed_at r = ts)"
  using assms by (auto simp: upsert_def split: if_splits)

lemma upsert_map_name:
  "map name (table_rows (upsert n cap reg pop cc rate gdp flag ts t))
     = (if n \<in> name ` set (table_rows t) then map name (table_rows t)
        else map name (table_rows t) @ [n])"
proof -
  have "map (name \<circ> (\<lambda>r. if name r = n
                      then r\<lparr>capital := cap, region := reg, population := pop,
                             currency_code := cc, exchange_rate := rate,
                             estimated_gdp := gdp, flag_url := flag, last_refreshed_at := ts\<rparr>
                      else r)) rs = map name rs" for rs
    by (rule map_cong) auto
  then show ?thesis
    by (auto simp: upsert_def)
qed

lemma upsert_names:
  "name ` set (table_rows (upsert n cap reg pop cc rate gdp flag ts t))
     = insert n (name ` set (table_rows t))"
proof -
  have "name ` set (table_rows (upsert n cap reg pop cc rate gdp flag ts t))
      = set (map name (table_rows (upsert n cap reg pop cc rate gdp flag ts t)))"
    by simp
  also have "\<dots> = insert n (name ` set (table_rows t))"
    unfolding upsert_map_name by auto
  finally show ?thesis .
qed

lemma upsert_distinct:
  "distinct (map name (table_rows t)) \<Longrightarrow>
   distinct (map name (table_rows (upsert n cap reg pop cc rate gdp flag ts t)))"
  unfolding upsert_map_name by auto

lemma refresh_loop_rows:
  assumes "refresh_loop d ts src cs (t, k) = Inr (t', k')"
    and "r \<in> set (table_rows t')"
  shows "(r \<in> set (table_rows t) \<and> name r \<notin> batch_names cs)
       \<or> (\<exists>c \<in> set cs. \<exists>j. validate c = Inr (name r, population r)
             \<and> fst (currency_logic (raw_currencies c) d (population r) src j)
                 = (currency_code r, exchange_rate r, estimated_gdp r)
             \<and> capital r = raw_capital c \<and> region r = raw_region c
             \<and> flag_url r = raw_flag c \<and> last_refreshed_at r = ts)"
  using assms
proof (induction cs arbitrary: t k)
  case Nil
  then show ?case by simp
next
  case (Cons c cs)
  from Cons.prems(1) obtain n pop where v: "validate c = Inr (n, pop)"
    by (auto split: sum.splits)
  obtain cc rate gdp k1 where cl:
    "currency_logic (raw_currencies c) d pop src k = ((cc, rate, gdp), k1)"
    by (metis prod_cases3 surj_pair)
  let ?t1 = "upsert n (raw_capital c) (raw_region c) pop cc rate gdp (raw_flag c) ts t"
  from Cons.prems(1) v cl have loop: "refresh_loop d ts src cs (?t1, k1) = Inr (t', k')"
    by simp
  from Cons.IH [OF loop Cons.prems(2)] show ?case
  proof
    assume old: "r \<in> set (table_rows ?t1) \<and> name r \<notin> batch_names cs"
    then have "(name r \<noteq> n \<and> r \<in> set (table_rows t))
       \<or> (name r = n \<and> capital r = raw_capital c \<and> region r = raw_region c \<and> population r = pop
            \<and> currency_code r = cc \<and> exchange_rate r = rate \<and> estimated_gdp r = gdp
            \<and> flag_url r = raw_flag c \<and> last_refreshed_at r = ts)"
      using upsert_rows by blast
    then show ?thesis
    proof
      assume a: "name r \<noteq> n \<and> r \<in> set (table_rows t)"
      from v have "raw_name c = Some n" by (simp add: validate_Inr)
      with a old have "name r \<notin> batch_names (c # cs)"
        by (simp add: batch_names_Cons)
      with a show ?thesis by blast
    next
      assume a: "name r = n \<and> capital r = raw_capital c \<and> region r = raw_region c \<and> population r = pop
            \<and> currency_code r = cc \<and> exchange_rate r = rate \<and> estimated_gdp r = gdp
            \<and> flag_url r = raw_flag c \<and> last_refreshed_at r = ts"
      with v cl have "validate c = Inr (name r, population r)
             \<and> fst (currency_logic (raw_currencies c) d (population r) src k)
                 = (currency_code r, exchange_rate r, estimated_gdp r)
             \<and> capital r = raw_capital c \<and> region r = raw_region c
             \<and> flag_url r = raw_flag c \<and> last_refreshed_at r = ts"
        by simp
      then show ?thesis by (metis list.set_intros(1))
    qed
  next
    assume "\<exists>c \<in> set cs. \<exists>j. validate c = Inr (name r, population r)
             \<and> fst (currency_logic (raw_currencies c) d (population r) src j)
                 = (currency_code r, exchange_rate r, estimated_gdp r)
             \<and> capital r = raw_capital c \<and> region r = raw_region c
             \<and> flag_url r = raw_flag c \<and> last_refreshed_at r = ts"
    then show ?thesis by (metis list.set_intros(2))
  qed
qed

lemma refresh_loop_names:
  assumes "refresh_loop d ts src cs (t, k) = Inr (t', k')"
  shows "name ` set (table_rows t') = name ` set (table_rows t) \<union> batch_names cs"
  using assms
proof (induction cs arbitrary: t k)
  case Nil
  then show ?case by simp
next
  case (Cons c cs)
  from Cons.prems(1) obtain n pop where v: "validate c = Inr (n, pop)"
    by (auto split: sum.splits)
  obtain cc rate gdp k1 where cl:
    "currency_logic (raw_currencies c) d pop src k = ((cc, rate, gdp), k1)"
    by (metis prod_cases3 surj_pair)
  let ?t1 = "upsert n (raw_capital c) (raw_region c) pop cc rate gdp (raw_flag c) ts t"
  from Cons.prems(1) v cl have loop: "refresh_loop d ts src cs (?t1, k1) = Inr (t', k')"
    by simp
  from v have n: "raw_name c = Some n" by (simp add: validate_Inr)
  have "batch_names (c # cs) = insert n (batch_names cs)"
    using n by (rule batch_names_Cons)
  with Cons.IH [OF loop] show ?case
    by (simp add: upsert_names)
qed

lemma refresh_loop_distinct:
  assumes "refresh_loop d ts src cs (t, k) = Inr (t', k')"
    and "distinct (map name (table_rows t))"
  shows "distinct (map name (table_rows t'))"
  using assms
proof (induction cs arbitrary: t k)
  case Nil
  then show ?case by simp
next
  case (Cons c cs)
  from Cons.prems(1) obtain n pop where v: "validate c = Inr (n, pop)"
    by (auto split: sum.splits)
  obtain cc rate gdp k1 where cl:
    "currency_logic (raw_currencies c) d pop src k = ((cc, rate, gdp), k1)"
    by (metis prod_cases3 surj_pair)
  let ?t1 = "upsert n (raw_capital c) (raw_region c) pop cc rate gdp (raw_flag c) ts t"
  from Cons.prems(1) v cl have loop: "refresh_loop d ts src cs (?t1, k1) = Inr (t', k')"
    by simp
  from Cons.IH [OF loop upsert_distinct [OF Cons.prems(2)]] show ?case .
qed

text \<open>The loop runs through the records that pass validation and stops at the first
  one that does not.\<close>

lemma refresh_loop_valid_prefix:
  assumes "\<forall>x \<in> set pre. \<exists>v. validate x = Inr v"
  shows "\<exists>st'. refresh_loop d ts src (pre @ rest) st = refresh_loop d ts src rest st'"
  using assms
proof (induction pre arbitrary: st)
  case Nil
  show ?case by (rule exI [of _ st]) simp
next
  case (Cons x pre)
  obtain t k where st: "st = (t, k)" by (cases st)
  from Cons.prems obtain n pop where v: "validate x = Inr (n, pop)" by auto
  obtain cc rate gdp k1 where cl:
    "currency_logic (raw_currencies x) d pop src k = ((cc, rate, gdp), k1)"
    by (metis prod_cases3 surj_pair)
  from Cons.prems have "\<forall>x \<in> set pre. \<exists>v. validate x = Inr v" by simp
  from Cons.IH [OF this] show ?case
    by (simp add: st v cl)
qed

lemma refresh_loop_total:
  assumes "\<forall>x \<in> set cs. \<exists>v. validate x = Inr v"
  shows "\<exists>st'. refresh_loop d ts src cs st = Inr st'"
  using refresh_loop_valid_prefix [OF assms, of d ts src "[]" st] by simp

lemma refresh_loop_first_invalid:
  assumes "\<forall>x \<in> set pre. \<exists>v. validate x = Inr v" and "validate c = Inl err"
  shows "refresh_loop d ts src (pre @ c # post) st = Inl err"
proof -
  obtain st' where "refresh_loop d ts src (pre @ c # post) st = refresh_loop d ts src (c # post) st'"
    using refresh_loop_valid_prefix [OF assms(1)] by blast
  moreover obtain t k where "st' = (t, k)" by (cases st')
  ultimately show ?thesis using assms(2) by simp
qed



lemma validate_Inr_ex:
  "(\<exists>v. validate c = Inr v) \<longleftrightarrow>
     (\<exists>n p. raw_name c = Some n \<and> n \<noteq> [] \<and> raw_population c = Some p \<and> 0 \<le> p)"
  by (auto simp: validate_def split: option.splits)

lemma refresh_loop_Inr_valid:
  assumes "refresh_loop d ts src cs st = Inr st'"
  shows "\<forall>c \<in> set cs. \<exists>v. validate c = Inr v"
proof (rule ccontr)
  assume "\<not> (\<forall>c \<in> set cs. \<exists>v. validate c = Inr v)"
  then have "\<exists>c \<in> set cs. \<exists>err. validate c = Inl err"
    by (metis sum.exhaust)
  then obtain pre c post err where split: "cs = pre @ c # post"
    and bad: "validate c = Inl err"
    and good: "\<forall>x \<in> set pre. \<not> (\<exists>err. validate x = Inl err)"
    by (auto dest!: split_list_first_prop)
  from good have "\<forall>x \<in> set pre. \<exists>v. validate x = Inr v"
    by (metis sum.exhaust)
  from refresh_loop_first_invalid [OF this bad] assms split show False
    by simp
qed

lemma refresh_countries_Inr:
  assumes "refresh_countries e w = (Inr (), w')"
  shows "\<exists>cs d t k. rest_countries e = Some cs \<and> exchange_rates e = Some d
           \<and> refresh_loop d (utc_now e) (random_source e) cs (countries w, 0) = Inr (t, k)
           \<and> cache_writable e
           \<and> w' = w\<lparr>countries := t, summary_png := Some (summary_image t (utc_now e))\<rparr>"
  using assms
  by (auto simp: refresh_countries_def split: option.splits sum.splits if_splits)

lemma refresh_countries_valid:
  assumes "rest_countries e = Some cs" and "exchange_rates e = Some d"
    and "\<forall>c \<in> set cs. \<exists>n p. raw_name c = Some n \<and> n \<noteq> [] \<and> raw_population c = Some p \<and> 0 \<le> p"
  shows "\<exists>t k. refresh_loop d (utc_now e) (random_source e) cs (countries w, 0) = Inr (t, k)
           \<and> refresh_countries e w =
               (if cache_writable e
                then (Inr (), w\<lparr>countries := t, summary_png := Some (summary_image t (utc_now e))\<rparr>)
                else (Inl (Unhandled ''OSError''), w\<lparr>countries := t\<rparr>))"
proof -
  from assms(3) have "\<forall>c \<in> set cs. \<exists>v. validate c = Inr v"
    by (simp only: validate_Inr_ex)
  from refresh_loop_total [OF this]
  obtain t k where "refresh_loop d (utc_now e) (random_source e) cs (countries w, 0) = Inr (t, k)"
    by (metis surj_pair)
  then show ?thesis
    by (auto simp: refresh_countries_def assms(1,2))
qed

lemma refresh_loop_Inl:
  assumes "refresh_loop d ts src cs st = Inl err"
  shows "\<exists>c \<in> set cs. validate c = Inl err"
  using assms
proof (induction cs arbitrary: st)
  case Nil
  then show ?case by simp
next
  case (Cons c cs)
  obtain t k where st: "st = (t, k)" by (cases st)
  show ?case
  proof (cases "validate c")
    case (Inl e)
    with Cons.prems st show ?thesis by simp
  next
    case (Inr v)
    obtain n pop where v: "v = (n, pop)" by (cases v)
    obtain cc rate gdp k1 where cl:
      "currency_logic (raw_currencies c) d pop src k = ((cc, rate, gdp), k1)"
      by (metis prod_cases3 surj_pair)
    from Cons.prems have "refresh_loop d ts src cs
        (upsert n (raw_capital c) (raw_region c) pop cc rate gdp (raw_flag c) ts t, k1) = Inl err"
      by (simp add: st Inr v cl)
    from Cons.IH [OF this] show ?thesis by simp
  qed
qed

lemma validate_status: "validate c = Inl err \<Longrightarrow> status_code err = 400"
  by (auto simp: validate_def split: option.splits if_splits)

lemma refresh_countries_status:
  assumes "rest_countries e = Some cs" and "exchange_rates e = Some d"
    and "fst (refresh_countries e w) = Inl err"
  shows "status_code err = 400 \<or> status_code err = 500"
proof (cases "refresh_loop d (utc_now e) (random_source e) cs (countries w, 0)")
  case (Inl x)
  with assms have "err = x" by (simp add: refresh_countries_def)
  with refresh_loop_Inl [OF Inl] validate_status show ?thesis by blast
next
  case (Inr st)
  with assms show ?thesis
    by (auto simp: refresh_countries_def split: if_splits prod.splits)
qed

text \<open>On a response that is an object with missing or object rates, the handler on
  decoded responses is the handler above.\<close>

lemma lookup_rate_object: "lookup_rate (object_body d) cc = Inr (rate_table d cc)"
  by (simp add: lookup_rate_def object_body_def rate_table_def split: option.splits)

lemma currency_logic_decoded_object:
  "currency_logic_decoded currencies (object_body d) pop src k
     = Inr (currency_logic currencies d pop src k)"
  by (simp add: currency_logic_decoded_def currency_logic_def lookup_rate_object
        split: option.splits list.splits)

lemma refresh_loop_decoded_object:
  "refresh_loop_decoded (object_body d) ts src cs st = refresh_loop d ts src cs st"
proof (induction cs arbitrary: st)
  case Nil
  show ?case by simp
next
  case (Cons c cs)
  obtain t k where st: "st = (t, k)" by (cases st)
  show ?case
    by (simp add: st currency_logic_decoded_object Cons.IH split: sum.splits prod.splits)
qed

lemma refresh_countries_decoded_object:
  "exchange_rates e = Some d \<Longrightarrow>
   refresh_countries_decoded (object_body d) e w = refresh_countries e w"
  by (cases "rest_countries e")
    (simp_all add: refresh_countries_decoded_def refresh_countries_def
       refresh_loop_decoded_object)

section \<open>Properties of the ordering\<close>

lemma mset_insert_row: "mset (insert_row le x xs) = add_mset x (mset xs)"
  by (induction xs) auto

lemma mset_order_by: "mset (order_by le xs) = mset xs"
  by (induction xs) (auto simp: mset_insert_row)

lemma set_insert_row: "set (insert_row le x xs) = insert x (set xs)"
  by (induction xs) auto

lemma sorted_insert_row:
  assumes total: "\<And>a b. le a b \<or> le b a"
    and trans: "\<And>a b c. le a b \<Longrightarrow> le b c \<Longrightarrow> le a c"
  shows "sorted_wrt le xs \<Longrightarrow> sorted_wrt le (insert_row le x xs)"
proof (induction xs)
  case Nil
  then show ?case by simp
next
  case (Cons y ys)
  show ?case
  proof (cases "le x y")
    case True
    with Cons.prems trans show ?thesis by auto
  next
    case False
    with total have "le y x" by blast
    with Cons False show ?thesis by (auto simp: set_insert_row)
  qed
qed

lemma sorted_order_by:
  assumes total: "\<And>a b. le a b \<or> le b a"
    and trans: "\<And>a b c. le a b \<Longrightarrow> le b c \<Longrightarrow> le a c"
  shows "sorted_wrt le (order_by le xs)"
  by (induction xs) (auto intro: sorted_insert_row [OF total trans])

lemma gdp_asc_total: "gdp_asc a b \<or> gdp_asc b a"
  by (cases a; cases b) auto

lemma gdp_asc_trans: "gdp_asc a b \<Longrightarrow> gdp_asc b c \<Longrightarrow> gdp_asc a c"
  by (cases a; cases b; cases c) auto

lemma gdp_desc_iff:
  "gdp_desc a b \<longleftrightarrow> a = None \<or> (\<exists>x y. a = Some x \<and> b = Some y \<and> y \<le> x)"
  by (cases a; cases b) (auto simp: gdp_desc_def)

lemma sorted_gdp_desc:
  "sorted_wrt (\<lambda>a b. gdp_desc (f a) (f b)) (order_by (\<lambda>a b. gdp_desc (f a) (f b)) rs)"
proof (rule sorted_order_by)
  show "gdp_desc (f a) (f b) \<or> gdp_desc (f b) (f a)" for a b
    using gdp_asc_total by (auto simp: gdp_desc_def)
  show "gdp_desc (f a) (f b) \<Longrightarrow> gdp_desc (f b) (f c) \<Longrightarrow> gdp_desc (f a) (f c)" for a b c
    using gdp_asc_trans by (auto simp: gdp_desc_def)
qed

section \<open>Properties of the pattern matching\<close>

lemma lower_char_cases:
  "lower_char c = c \<or> lower_char c \<in> set ''abcdefghijklmnopqrstuvwxyz''"
proof (cases "map_of (zip ''ABCDEFGHIJKLMNOPQRSTUVWXYZ'' ''abcdefghijklmnopqrstuvwxyz'') c")
  case None
  then show ?thesis by (simp add: lower_char_def)
next
  case (Some l)
  then have "(c, l) \<in> set (zip ''ABCDEFGHIJKLMNOPQRSTUVWXYZ'' ''abcdefghijklmnopqrstuvwxyz'')"
    by (rule map_of_SomeD)
  then have "l \<in> set ''abcdefghijklmnopqrstuvwxyz''"
    by (rule set_zip_rightD)
  with Some show ?thesis by (simp add: lower_char_def)
qed

lemma letters_disjoint:
  "set ''abcdefghijklmnopqrstuvwxyz'' \<inter> set ''ABCDEFGHIJKLMNOPQRSTUVWXYZ'' = {}"
  by simp

lemma lower_char_not_upper:
  assumes "c \<notin> set ''ABCDEFGHIJKLMNOPQRSTUVWXYZ''"
  shows "lower_char c = c"
proof -
  have "map fst (zip ''ABCDEFGHIJKLMNOPQRSTUVWXYZ'' ''abcdefghijklmnopqrstuvwxyz'')
          = ''ABCDEFGHIJKLMNOPQRSTUVWXYZ''"
    by (rule map_fst_zip) simp
  then have "fst ` set (zip ''ABCDEFGHIJKLMNOPQRSTUVWXYZ'' ''abcdefghijklmnopqrstuvwxyz'')
          = set ''ABCDEFGHIJKLMNOPQRSTUVWXYZ''"
    by (metis set_map)
  with assms have
    "map_of (zip ''ABCDEFGHIJKLMNOPQRSTUVWXYZ'' ''abcdefghijklmnopqrstuvwxyz'') c = None"
    by (simp only: map_of_eq_None_iff not_False_eq_True)
  then show ?thesis by (simp only: lower_char_def option.case)
qed

lemma lower_char_letter:
  "l \<in> set ''abcdefghijklmnopqrstuvwxyz'' \<Longrightarrow> lower_char l = l"
  using letters_disjoint by (intro lower_char_not_upper) blast

lemma special_not_upper:
  "x \<in> {CHR ''%'', CHR ''_'', CHR 0x5C} \<Longrightarrow> x \<notin> set ''ABCDEFGHIJKLMNOPQRSTUVWXYZ''"
  by auto

lemma special_not_lower:
  "x \<in> {CHR ''%'', CHR ''_'', CHR 0x5C} \<Longrightarrow> x \<notin> set ''abcdefghijklmnopqrstuvwxyz''"
  by auto

lemma lower_char_idem: "lower_char (lower_char c) = lower_char c"
  using lower_char_cases [of c]
proof
  assume "lower_char c = c"
  then show ?thesis by (simp only:)
next
  assume "lower_char c \<in> set ''abcdefghijklmnopqrstuvwxyz''"
  then show ?thesis by (rule lower_char_letter)
qed

lemma lower_idem: "lower (lower s) = lower s"
  by (simp add: lower_def lower_char_idem)

lemma lower_char_special:
  assumes "x \<in> {CHR ''%'', CHR ''_'', CHR 0x5C}"
  shows "lower_char c = x \<longleftrightarrow> c = x"
proof
  assume eq: "lower_char c = x"
  from lower_char_cases [of c] show "c = x"
  proof
    assume "lower_char c = c"
    with eq show ?thesis by (simp only:)
  next
    assume "lower_char c \<in> set ''abcdefghijklmnopqrstuvwxyz''"
    with eq special_not_lower [OF assms] show ?thesis by blast
  qed
next
  assume "c = x"
  with lower_char_not_upper [OF special_not_upper [OF assms]] show "lower_char c = x" by simp
qed

lemma like_literal_lower: "like_literal p \<Longrightarrow> like_literal (lower p)"
proof -
  assume lit: "like_literal p"
  have "lower_char c \<noteq> CHR ''%'' \<and> lower_char c \<noteq> CHR ''_'' \<and> lower_char c \<noteq> CHR 0x5C"
    if "c \<in> set p" for c
  proof -
    from lit that have "c \<noteq> CHR ''%''" "c \<noteq> CHR ''_''" "c \<noteq> CHR 0x5C"
      by (simp_all add: like_literal_def)
    then show ?thesis
      using lower_char_special [of "CHR ''%''" c] lower_char_special [of "CHR ''_''" c]
        lower_char_special [of "CHR 0x5C" c]
      by simp
  qed
  then show ?thesis
    by (simp add: like_literal_def lower_def)
qed

lemma like_match_literal: "like_literal p \<Longrightarrow> like_match p t \<longleftrightarrow> p = t"
proof (induction p arbitrary: t)
  case Nil
  then show ?case by auto
next
  case (Cons c p)
  then have c: "c \<noteq> CHR ''%''" "c \<noteq> CHR ''_''" "c \<noteq> CHR 0x5C" and p: "like_literal p"
    by (auto simp: like_literal_def)
  show ?case
  proof (cases t)
    case Nil
    with c show ?thesis by simp
  next
    case (Cons d t')
    with c Cons.IH [OF p, of t'] show ?thesis by auto
  qed
qed

lemma ilike_literal: "like_literal p \<Longrightarrow> ilike p t \<longleftrightarrow> lower p = lower t"
  by (simp add: ilike_def like_match_literal like_literal_lower)

section \<open>Properties of the queries\<close>

lemma lower_Nil_iff: "lower s = [] \<longleftrightarrow> s = []"
  by (simp add: lower_def)

lemma order_clause_lower: "order_clause (Some (lower s)) rs = order_clause (Some s) rs"
  by (simp add: order_clause_def lower_idem lower_Nil_iff)

lemma order_clause_other:
  "lower s \<noteq> ''gdp_desc'' \<Longrightarrow> lower s \<noteq> ''gdp_asc'' \<Longrightarrow> order_clause (Some s) rs = rs"
  by (simp add: order_clause_def)

lemma order_clause_None: "order_clause None rs = rs"
  by (simp add: order_clause_def)

lemma and_ilike_falsy: "\<not> truthy p \<Longrightarrow> and_ilike column p rs = rs"
  by (cases p) (auto simp: and_ilike_def)

lemma order_clause_desc:
  assumes "lower s = ''gdp_desc''"
  shows "order_clause (Some s) rs
           = order_by (\<lambda>a b. gdp_desc (estimated_gdp a) (estimated_gdp b)) rs"
proof -
  from assms have "s \<noteq> []" by (auto simp: lower_def)
  with assms show ?thesis by (simp add: order_clause_def)
qed

lemma order_by_Nil_iff: "order_by le xs = [] \<longleftrightarrow> xs = []"
  by (metis mset_order_by mset_zero_iff)

lemma sort_value_recognition:
  "get_countries_with_filtering region_p currency_p (Some s) w
     = get_countries_with_filtering region_p currency_p (Some (lower s)) w
   \<and> (lower s \<noteq> ''gdp_desc'' \<and> lower s \<noteq> ''gdp_asc'' \<longrightarrow>
        get_countries_with_filtering region_p currency_p (Some s) w
          = get_countries_with_filtering region_p currency_p None w)"
proof -
  let ?rows = "table_rows (countries w)"
  let ?filtered = "and_ilike currency_code currency_p (and_ilike region region_p ?rows)"
  have with_sort: "get_countries_with_filtering region_p currency_p (Some s') w
      = (if order_clause (Some s') ?filtered = []
         then Inl (HTTPException 404 (Error_only ''Country not found''))
         else Inr (order_clause (Some s') ?filtered))" for s'
  proof (cases "s' = []")
    case True
    then show ?thesis
      by (auto simp: get_countries_with_filtering_def order_clause_def and_ilike_falsy)
  next
    case False
    then show ?thesis
      by (simp add: get_countries_with_filtering_def)
  qed
  have no_sort: "get_countries_with_filtering region_p currency_p None w
      = (if ?filtered = [] then Inl (HTTPException 404 (Error_only ''Country not found''))
         else Inr ?filtered)"
    by (auto simp: get_countries_with_filtering_def order_clause_None and_ilike_falsy)
  have "get_countries_with_filtering region_p currency_p (Some s) w
           = get_countries_with_filtering region_p currency_p (Some (lower s)) w"
    by (simp only: with_sort order_clause_lower)
  moreover have "lower s \<noteq> ''gdp_desc'' \<and> lower s \<noteq> ''gdp_asc'' \<longrightarrow>
            get_countries_with_filtering region_p currency_p (Some s) w
              = get_countries_with_filtering region_p currency_p None w"
    by (simp add: with_sort no_sort order_clause_other)
  ultimately show ?thesis
    by (rule conjI)
qed

lemma filter_distinct_name:
  assumes "distinct (map name (before @ r # after))"
  shows "filter (\<lambda>x. name x \<noteq> name r) (before @ r # after) = before @ after"
proof -
  from assms have "name r \<notin> name ` set before" and "name r \<notin> name ` set after"
    by auto
  then have "\<forall>x \<in> set before. name x \<noteq> name r" and "\<forall>x \<in> set after. name x \<noteq> name r"
    by (metis imageI)+
  then show ?thesis by simp
qed

section \<open>The claims about the refresh\<close>

lemmas sample_defs = sample_env_def sample_world_def sample_country_def sample_india_def
  sample_wakanda_def sample_usa_def sample_rates_def sample_row_def sample_india_row_def
  sample_usa_row_def

lemmas refresh_defs = refresh_countries_def validate_def currency_logic_def rate_table_def
  upsert_def randint_def



text \<open>
  C2. After a refresh that succeeds, every fetched record has a row, and every row whose
  name the batch carries has the one timestamp taken before the loop.
\<close>

theorem refresh_shares_timestamp:
  assumes "refresh_countries e w = (Inr (), w')"
    and "rest_countries e = Some country_data"
  shows "(\<forall>c \<in> set country_data. \<exists>r \<in> set (table_rows (countries w')).
            raw_name c = Some (name r) \<and> last_refreshed_at r = utc_now e)
       \<and> (\<forall>r \<in> set (table_rows (countries w')).
            name r \<in> batch_names country_data \<longrightarrow> last_refreshed_at r = utc_now e)"
proof -
  from refresh_countries_Inr [OF assms(1)] assms(2)
  obtain d t k where
    loop: "refresh_loop d (utc_now e) (random_source e) country_data (countries w, 0) = Inr (t, k)"
    and w': "w' = w\<lparr>countries := t, summary_png := Some (summary_image t (utc_now e))\<rparr>"
    by auto
  have rows: "table_rows (countries w') = table_rows t"
    by (simp add: w')
  have stamped: "last_refreshed_at r = utc_now e"
    if "r \<in> set (table_rows t)" and "name r \<in> batch_names country_data" for r
    using refresh_loop_rows [OF loop that(1)] that(2) by blast
  have present: "\<exists>r \<in> set (table_rows t). raw_name c = Some (name r)"
    if "c \<in> set country_data" for c
  proof -
    from refresh_loop_Inr_valid [OF loop] that obtain n p where "validate c = Inr (n, p)"
      by fastforce
    then have n: "raw_name c = Some n"
      by (simp add: validate_Inr)
    with that have "n \<in> batch_names country_data"
      by (auto simp: batch_names_iff)
    then have "n \<in> name ` set (table_rows t)"
      by (simp add: refresh_loop_names [OF loop])
    with n show ?thesis by auto
  qed
  show ?thesis
    unfolding rows
  proof (intro conjI ballI impI)
    fix c assume c: "c \<in> set country_data"
    from present [OF c] obtain r where r: "r \<in> set (table_rows t)" "raw_name c = Some (name r)"
      by blast
    with c have "name r \<in> batch_names country_data"
      by (auto simp: batch_names_iff)
    from stamped [OF r(1) this] r
    show "\<exists>r \<in> set (table_rows t). raw_name c = Some (name r) \<and> last_refreshed_at r = utc_now e"
      by blast
  next
    fix r assume "r \<in> set (table_rows t)" "name r \<in> batch_names country_data"
    then show "last_refreshed_at r = utc_now e" by (rule stamped)
  qed
qed

text \<open>A batch of two on a table that holds one of them and one other row.\<close>

theorem refresh_shares_timestamp_witness:
  "fst (refresh_countries (sample_env [sample_india, sample_usa] sample_rates True)
          (sample_world [sample_row 1 ''India'' None, sample_row 2 ''Chad'' None])) = Inr ()
   \<and> (\<exists>r \<in> set (table_rows (countries (snd (refresh_countries
                  (sample_env [sample_india, sample_usa] sample_rates True)
                  (sample_world [sample_row 1 ''India'' None, sample_row 2 ''Chad'' None]))))).
          raw_name sample_india = Some (name r) \<and> last_refreshed_at r = 1700000000)
   \<and> (\<exists>r \<in> set (table_rows (countries (snd (refresh_countries
                  (sample_env [sample_india, sample_usa] sample_rates True)
                  (sample_world [sample_row 1 ''India'' None, sample_row 2 ''Chad'' None]))))).
          raw_name sample_usa = Some (name r) \<and> last_refreshed_at r = 1700000000)"
proof -
  let ?e = "sample_env [sample_india, sample_usa] sample_rates True"
  let ?w = "sample_world [sample_row 1 ''India'' None, sample_row 2 ''Chad'' None]"
  have ok: "fst (refresh_countries ?e ?w) = Inr ()"
    by (simp add: refresh_defs sample_defs)
  then have h1: "refresh_countries ?e ?w = (Inr (), snd (refresh_countries ?e ?w))"
    by (simp add: prod_eq_iff)
  have h2: "rest_countries ?e = Some [sample_india, sample_usa]"
    by (simp add: sample_env_def)
  have now: "utc_now ?e = 1700000000"
    by (simp add: sample_env_def)
  from refresh_shares_timestamp [OF h1 h2]
  have "\<forall>c \<in> set [sample_india, sample_usa].
          \<exists>r \<in> set (table_rows (countries (snd (refresh_countries ?e ?w)))).
            raw_name c = Some (name r) \<and> last_refreshed_at r = 1700000000"
    unfolding now by (rule conjunct1)
  with ok show ?thesis
    by simp
qed

text \<open>
  C3, as amended. For every row written by a refresh, \<^verbatim>\<open>estimated_gdp\<close> is not null if and
  only if \<^verbatim>\<open>currency_code\<close> is a non-empty code that the rate table maps to a rate other
  than zero; when \<^verbatim>\<open>currency_code\<close> is null or not a key of the rate table,
  \<^verbatim>\<open>exchange_rate\<close> and \<^verbatim>\<open>estimated_gdp\<close> are both null.
\<close>

theorem refresh_gdp_null_iff:
  assumes "refresh_countries e w = (Inr (), w')"
    and "rest_countries e = Some country_data"
    and "exchange_rates e = Some exchange_rate_data"
    and "r \<in> set (table_rows (countries w'))"
    and "name r \<in> batch_names country_data"
  shows "(estimated_gdp r \<noteq> None \<longleftrightarrow>
            (\<exists>cc rate. currency_code r = Some cc \<and> cc \<noteq> []
                \<and> rate_table exchange_rate_data cc = Some rate \<and> rate \<noteq> 0))
       \<and> (currency_code r = None
            \<or> (\<exists>cc. currency_code r = Some cc \<and> rate_table exchange_rate_data cc = None)
          \<longrightarrow> exchange_rate r = None \<and> estimated_gdp r = None)"
proof -
  from refresh_countries_Inr [OF assms(1)] assms(2,3)
  obtain t k where
    loop: "refresh_loop exchange_rate_data (utc_now e) (random_source e) country_data
             (countries w, 0) = Inr (t, k)"
    and w': "w' = w\<lparr>countries := t, summary_png := Some (summary_image t (utc_now e))\<rparr>"
    by auto
  from assms(4) have "r \<in> set (table_rows t)"
    by (simp add: w')
  from refresh_loop_rows [OF loop this] assms(5)
  obtain c :: raw_country and j where
    "fst (currency_logic (raw_currencies c) exchange_rate_data (population r) (random_source e) j)
       = (currency_code r, exchange_rate r, estimated_gdp r)"
    by blast
  then obtain j' where
    "currency_logic (raw_currencies c) exchange_rate_data (population r) (random_source e) j
       = ((currency_code r, exchange_rate r, estimated_gdp r), j')"
    by (metis prod.collapse)
  from currency_logic_cases [OF this] show ?thesis
    by (auto split: option.splits if_splits)
qed

text \<open>The row of India after a refresh from an empty table.\<close>

theorem refresh_gdp_null_iff_witness:
  "fst (refresh_countries (sample_env [sample_india] sample_rates True) (sample_world [])) = Inr ()
   \<and> sample_india_row \<in> set (table_rows (countries (snd (refresh_countries
         (sample_env [sample_india] sample_rates True) (sample_world [])))))
   \<and> name sample_india_row \<in> batch_names [sample_india]
   \<and> (estimated_gdp sample_india_row \<noteq> None \<longleftrightarrow>
            (\<exists>cc rate. currency_code sample_india_row = Some cc \<and> cc \<noteq> []
                \<and> rate_table \<lparr>rates = sample_rates\<rparr> cc = Some rate \<and> rate \<noteq> 0))"
proof -
  let ?e = "sample_env [sample_india] sample_rates True"
  let ?w = "sample_world []"
  have ok: "fst (refresh_countries ?e ?w) = Inr ()"
    by (simp add: refresh_defs sample_defs)
  then have h1: "refresh_countries ?e ?w = (Inr (), snd (refresh_countries ?e ?w))"
    by (simp add: prod_eq_iff)
  have h2: "rest_countries ?e = Some [sample_india]"
    by (simp add: sample_env_def)
  have h3: "exchange_rates ?e = Some \<lparr>rates = sample_rates\<rparr>"
    by (simp add: sample_env_def)
  have h4: "sample_india_row \<in> set (table_rows (countries (snd (refresh_countries ?e ?w))))"
    by (simp add: refresh_defs sample_defs)
  have h5: "name sample_india_row \<in> batch_names [sample_india]"
    by (simp add: sample_defs)
  from refresh_gdp_null_iff [OF h1 h2 h3 h4 h5]
  have "estimated_gdp sample_india_row \<noteq> None \<longleftrightarrow>
            (\<exists>cc rate. currency_code sample_india_row = Some cc \<and> cc \<noteq> []
                \<and> rate_table \<lparr>rates = sample_rates\<rparr> cc = Some rate \<and> rate \<noteq> 0)"
    by (rule conjunct1)
  with ok h4 h5 show ?thesis
    by (intro conjI)
qed

text \<open>
  The claim as stated fails where the rate table maps the code to zero: the row's
  \<^verbatim>\<open>currency_code\<close> is not null and is a key of the rate table, and its \<^verbatim>\<open>estimated_gdp\<close>
  is null.
\<close>

theorem refresh_gdp_null_counterexample:
  "fst (refresh_countries (sample_env [sample_usa] sample_rates True) (sample_world [])) = Inr ()
   \<and> table_rows (countries (snd (refresh_countries
         (sample_env [sample_usa] sample_rates True) (sample_world [])))) = [sample_usa_row]
   \<and> currency_code sample_usa_row = Some ''USD''
   \<and> rate_table \<lparr>rates = sample_rates\<rparr> ''USD'' = Some 0
   \<and> estimated_gdp sample_usa_row = None"
  by (simp add: refresh_defs sample_defs)




text \<open>
  C10, as amended. When the exchange-rate response is a JSON object that has no key
  \<^verbatim>\<open>"rates"\<close>, or whose \<^verbatim>\<open>"rates"\<close> is an empty object, no error of the refresh has status
  503, the refresh succeeds whenever every record passes validation and the summary image
  can be written, and then every row whose name the batch carries has \<^verbatim>\<open>exchange_rate\<close>
  and \<^verbatim>\<open>estimated_gdp\<close> null, whatever its \<^verbatim>\<open>currency_code\<close>.
\<close>

theorem missing_rates_no_error:
  assumes "rest_countries e = Some country_data"
    and "exchange_rates e = Some exchange_rate_data"
    and "rates exchange_rate_data = None \<or> rates exchange_rate_data = Some Map.empty"
  shows "(\<forall>err. fst (refresh_countries e w) = Inl err \<longrightarrow> status_code err \<noteq> 503)
       \<and> ((\<forall>c \<in> set country_data. \<exists>n p. raw_name c = Some n \<and> n \<noteq> []
                                        \<and> raw_population c = Some p \<and> 0 \<le> p)
            \<and> cache_writable e
          \<longrightarrow> fst (refresh_countries e w) = Inr ())
       \<and> (\<forall>r \<in> set (table_rows (countries (snd (refresh_countries e w)))).
            fst (refresh_countries e w) = Inr () \<and> name r \<in> batch_names country_data
              \<longrightarrow> exchange_rate r = None \<and> estimated_gdp r = None)"
proof -
  have no_503: "status_code err \<noteq> 503" if "fst (refresh_countries e w) = Inl err" for err
    using refresh_countries_status [OF assms(1,2) that] by auto
  have succeeds: "fst (refresh_countries e w) = Inr ()"
    if "(\<forall>c \<in> set country_data. \<exists>n p. raw_name c = Some n \<and> n \<noteq> []
                                        \<and> raw_population c = Some p \<and> 0 \<le> p)
            \<and> cache_writable e"
    using refresh_countries_valid [OF assms(1,2), of w] that by auto
  have nulls: "exchange_rate r = None \<and> estimated_gdp r = None"
    if r: "r \<in> set (table_rows (countries (snd (refresh_countries e w))))"
      and ok: "fst (refresh_countries e w) = Inr () \<and> name r \<in> batch_names country_data"
    for r
  proof -
    from assms(3) have empty: "rate_table exchange_rate_data = Map.empty"
      by (auto simp: rate_table_def)
    from ok have "refresh_countries e w = (Inr (), snd (refresh_countries e w))"
      by (simp add: prod_eq_iff)
    from refresh_countries_Inr [OF this] assms(1,2)
    obtain t k where
      loop: "refresh_loop exchange_rate_data (utc_now e) (random_source e) country_data
               (countries w, 0) = Inr (t, k)"
      and w': "snd (refresh_countries e w) =
                 w\<lparr>countries := t, summary_png := Some (summary_image t (utc_now e))\<rparr>"
      by auto
    from r have "r \<in> set (table_rows t)"
      by (simp add: w')
    from refresh_loop_rows [OF loop this] ok
    obtain c :: raw_country and j where
      "fst (currency_logic (raw_currencies c) exchange_rate_data (population r)
              (random_source e) j)
         = (currency_code r, exchange_rate r, estimated_gdp r)"
      by blast
    then obtain j' where
      "currency_logic (raw_currencies c) exchange_rate_data (population r) (random_source e) j
         = ((currency_code r, exchange_rate r, estimated_gdp r), j')"
      by (metis prod.collapse)
    from currency_logic_cases [OF this] show ?thesis
      by (auto simp: empty split: option.splits if_splits)
  qed
  from no_503 succeeds nulls show ?thesis
    by blast
qed

text \<open>A response without rates: India is written with its code and no rate.\<close>

theorem missing_rates_no_error_witness:
  "fst (refresh_countries (sample_env [sample_india] None True) (sample_world [])) = Inr ()
   \<and> (\<exists>r \<in> set (table_rows (countries (snd (refresh_countries
                 (sample_env [sample_india] None True) (sample_world []))))).
          name r \<in> batch_names [sample_india]
        \<and> currency_code r = Some ''INR''
        \<and> exchange_rate r = None \<and> estimated_gdp r = None)"
proof -
  let ?e = "sample_env [sample_india] None True"
  let ?w = "sample_world []"
  let ?r = "sample_india_row\<lparr>exchange_rate := None, estimated_gdp := None\<rparr>"
  have h1: "rest_countries ?e = Some [sample_india]"
    by (simp add: sample_env_def)
  have h2: "exchange_rates ?e = Some \<lparr>rates = None\<rparr>"
    by (simp add: sample_env_def)
  have h3: "rates \<lparr>rates = None\<rparr> = None \<or> rates \<lparr>rates = None\<rparr> = Some Map.empty"
    by simp
  have valid: "(\<forall>c \<in> set [sample_india]. \<exists>n p. raw_name c = Some n \<and> n \<noteq> []
                                        \<and> raw_population c = Some p \<and> 0 \<le> p)
            \<and> cache_writable ?e"
    by (simp add: sample_defs)
  have row: "?r \<in> set (table_rows (countries (snd (refresh_countries ?e ?w))))"
    by (simp add: refresh_defs sample_defs)
  have batch: "name ?r \<in> batch_names [sample_india]"
    by (simp add: sample_defs)
  have cc: "currency_code ?r = Some ''INR''"
    by (simp add: sample_defs)
  note inst = missing_rates_no_error [OF h1 h2 h3, of ?w]
  from inst valid have ok: "fst (refresh_countries ?e ?w) = Inr ()"
    by blast
  with inst row batch have "exchange_rate ?r = None \<and> estimated_gdp ?r = None"
    by blast
  with ok row batch cc show ?thesis
    by blast
qed

text \<open>
  The claim as stated fails on a decoded response whose \<^verbatim>\<open>"rates"\<close> is \<^verbatim>\<open>null\<close>: it has no
  rates, and at the first record with a currency code line 84 raises \<^verbatim>\<open>AttributeError\<close>,
  which nothing catches. Nothing is committed.
\<close>

theorem missing_rates_counterexample:
  "refresh_countries_decoded (Body_object (Some Rates_not_object))
     (sample_env [sample_india] None True) (sample_world [])
   = (Inl (Unhandled ''AttributeError''), sample_world [])"
  by (simp add: refresh_countries_decoded_def currency_logic_decoded_def lookup_rate_def
        validate_def sample_defs)

section \<open>The claims about the queries\<close>

text \<open>
  C6. The value of \<^verbatim>\<open>sort\<close> counts up to letter case and a value other than \<^verbatim>\<open>gdp_desc\<close>
  and \<^verbatim>\<open>gdp_asc\<close> is ignored, as \<open>sort_value_recognition\<close> above shows. The order under
  \<^verbatim>\<open>gdp_desc\<close> is not the claimed one: \<^verbatim>\<open>ORDER BY estimated_gdp DESC\<close> of line 158 has
  neither \<^verbatim>\<open>NULLS LAST\<close> nor the \<^verbatim>\<open>IS NOT NULL\<close> of the same ordering at line 119, so a
  row with a null \<^verbatim>\<open>estimated_gdp\<close> comes first. On a table of India with the estimate 5
  and Chad with none, \<^verbatim>\<open>gdp_desc\<close> returns Chad before India, \<^verbatim>\<open>gdp_asc\<close> returns Chad
  last and the summary's query leaves Chad out.
\<close>

theorem sort_gdp_desc_null_first:
  "get_countries_with_filtering None None (Some ''gdp_desc'')
     (sample_world [sample_row 1 ''India'' (Some 5), sample_row 2 ''Chad'' None])
   = Inr [sample_row 2 ''Chad'' None, sample_row 1 ''India'' (Some 5)]
   \<and> get_countries_with_filtering None None (Some ''gdp_asc'')
     (sample_world [sample_row 1 ''India'' (Some 5), sample_row 2 ''Chad'' None])
   = Inr [sample_row 1 ''India'' (Some 5), sample_row 2 ''Chad'' None]
   \<and> top_gdp (countries
        (sample_world [sample_row 1 ''India'' (Some 5), sample_row 2 ''Chad'' None]))
   = [(''India'', 5)]"
  by (simp add: get_countries_with_filtering_def order_clause_def and_ilike_def lower_def
        lower_char_def gdp_desc_def top_gdp_def List.map_filter_def sample_defs)

text \<open>
  C7. Without filters \<^verbatim>\<open>GET /countries\<close> returns as many rows as \<^verbatim>\<open>GET /status\<close> counts;
  on an empty table, where the count is zero, it raises the 404 of an empty result.
\<close>

theorem unfiltered_count:
  "(case get_countries_with_filtering None None None w of
      Inl err \<Rightarrow> err = HTTPException 404 (Error_only ''Country not found'')
                 \<and> total_countries (get_status w) = 0
    | Inr data \<Rightarrow> length data = total_countries (get_status w))"
  by (simp add: get_countries_with_filtering_def get_status_def Let_def)

theorem unfiltered_count_witness:
  "(case get_countries_with_filtering None None None
           (sample_world [sample_row 1 ''India'' (Some 5), sample_row 2 ''Chad'' None]) of
      Inl err \<Rightarrow> err = HTTPException 404 (Error_only ''Country not found'')
                 \<and> total_countries (get_status
                      (sample_world [sample_row 1 ''India'' (Some 5), sample_row 2 ''Chad'' None])) = 0
    | Inr data \<Rightarrow> length data = total_countries (get_status
                      (sample_world [sample_row 1 ''India'' (Some 5), sample_row 2 ''Chad'' None])))"
  by (rule unfiltered_count)

text \<open>
  C8, as amended. For a name that is a well-formed pattern, \<^verbatim>\<open>GET /countries/{name}\<close>
  matches the stored names against it with \<^verbatim>\<open>ILIKE\<close>: it raises 404 exactly when no
  stored name matches, and otherwise returns the first row whose name matches. When the
  name has none of \<^verbatim>\<open>%\<close>, \<^verbatim>\<open>_\<close> and the backslash, a stored name matches exactly when it
  equals the name up to letter case.
\<close>

theorem get_country_by_name_pattern:
  assumes "like_pattern_ok n"
  shows "(get_country_by_name n w = Inl (HTTPException 404 (Error_only ''Country not found''))
            \<longleftrightarrow> (\<forall>r \<in> set (table_rows (countries w)). \<not> ilike n (name r)))
       \<and> (\<forall>r. get_country_by_name n w = Inr r \<longleftrightarrow>
              (\<exists>before after. table_rows (countries w) = before @ r # after
                  \<and> ilike n (name r) \<and> (\<forall>x \<in> set before. \<not> ilike n (name x))))
       \<and> (like_literal n \<longrightarrow> (\<forall>s. ilike n s \<longleftrightarrow> lower s = lower n))"
proof -
  have notfound: "get_country_by_name n w = Inl (HTTPException 404 (Error_only ''Country not found''))
            \<longleftrightarrow> (\<forall>r \<in> set (table_rows (countries w)). \<not> ilike n (name r))"
  proof -
    have "get_country_by_name n w = Inl (HTTPException 404 (Error_only ''Country not found''))
            \<longleftrightarrow> find (\<lambda>r. ilike n (name r)) (table_rows (countries w)) = None"
      by (simp add: get_country_by_name_def split: option.splits)
    then show ?thesis
      by (simp only: find_None_iff) blast
  qed
  have found: "get_country_by_name n w = Inr r \<longleftrightarrow>
              (\<exists>before after. table_rows (countries w) = before @ r # after
                  \<and> ilike n (name r) \<and> (\<forall>x \<in> set before. \<not> ilike n (name x)))" for r
  proof
    assume "get_country_by_name n w = Inr r"
    then have "find (\<lambda>r. ilike n (name r)) (table_rows (countries w)) = Some r"
      by (auto simp: get_country_by_name_def split: option.splits)
    then obtain i where i: "i < length (table_rows (countries w))"
      "ilike n (name (table_rows (countries w) ! i))" "r = table_rows (countries w) ! i"
      "\<forall>j<i. \<not> ilike n (name (table_rows (countries w) ! j))"
      unfolding find_Some_iff by blast
    let ?rows = "table_rows (countries w)"
    have "?rows = take i ?rows @ r # drop (Suc i) ?rows"
      using i(1,3) by (simp add: id_take_nth_drop)
    moreover have "\<forall>x \<in> set (take i ?rows). \<not> ilike n (name x)"
      using i(1,4) by (auto simp: in_set_conv_nth)
    ultimately show "\<exists>before after. ?rows = before @ r # after
                  \<and> ilike n (name r) \<and> (\<forall>x \<in> set before. \<not> ilike n (name x))"
      using i(2,3) by blast
  next
    assume "\<exists>before after. table_rows (countries w) = before @ r # after
                  \<and> ilike n (name r) \<and> (\<forall>x \<in> set before. \<not> ilike n (name x))"
    then obtain before after where split: "table_rows (countries w) = before @ r # after"
      and r: "ilike n (name r)" and b: "\<forall>x \<in> set before. \<not> ilike n (name x)"
      by blast
    from b have "find (\<lambda>r. ilike n (name r)) (before @ r # after)
                   = find (\<lambda>r. ilike n (name r)) (r # after)"
      by (induction before) auto
    with r split show "get_country_by_name n w = Inr r"
      by (simp add: get_country_by_name_def)
  qed
  have literal: "like_literal n \<longrightarrow> (\<forall>s. ilike n s \<longleftrightarrow> lower s = lower n)"
    by (auto simp: ilike_literal)
  from notfound found literal show ?thesis
    by (intro conjI allI)
qed

theorem get_country_by_name_pattern_witness:
  "like_pattern_ok ''india''
   \<and> (get_country_by_name ''india'' (sample_world [sample_row 1 ''India'' None])
        = Inr (sample_row 1 ''India'' None)
      \<longleftrightarrow> (\<exists>before after.
              table_rows (countries (sample_world [sample_row 1 ''India'' None]))
                = before @ sample_row 1 ''India'' None # after
            \<and> ilike ''india'' (name (sample_row 1 ''India'' None))
            \<and> (\<forall>x \<in> set before. \<not> ilike ''india'' (name x))))"
proof -
  have h: "like_pattern_ok ''india''"
    by simp
  from h get_country_by_name_pattern [OF h, of "sample_world [sample_row 1 ''India'' None]"]
  show ?thesis
    by blast
qed

text \<open>The claim as stated fails for a name with a wildcard: \<^verbatim>\<open>Ind%\<close> finds India.\<close>

theorem get_country_by_name_counterexample:
  "get_country_by_name ''Ind%'' (sample_world [sample_row 1 ''India'' None])
     = Inr (sample_row 1 ''India'' None)
   \<and> lower (name (sample_row 1 ''India'' None)) \<noteq> lower ''Ind%''"
  by (simp add: get_country_by_name_def ilike_def lower_def lower_char_def sample_defs)

text \<open>
  C9, as amended. On a table with unique names and for a name that is a well-formed
  pattern: when no row has exactly that name, \<^verbatim>\<open>DELETE /countries/{name}\<close> raises 404 and
  the state is unchanged; otherwise it removes exactly the one row of that name and
  leaves the others in place, and a following \<^verbatim>\<open>GET /countries/{name}\<close> raises 404 exactly
  when no remaining name matches the name under \<^verbatim>\<open>ILIKE\<close>.
\<close>

theorem delete_country_by_name_exact:
  assumes "distinct (map name (table_rows (countries w)))" and "like_pattern_ok n"
  shows "(n \<notin> name ` set (table_rows (countries w)) \<longrightarrow>
            delete_country_by_name n w
              = (Inl (HTTPException 404 (Error_only ''Country not found'')), w))
       \<and> (n \<in> name ` set (table_rows (countries w)) \<longrightarrow>
            (\<exists>before r after.
                table_rows (countries w) = before @ r # after \<and> name r = n
              \<and> delete_country_by_name n w
                  = (Inr (), w\<lparr>countries := (countries w)\<lparr>table_rows := before @ after\<rparr>\<rparr>)
              \<and> n \<notin> name ` set (before @ after)
              \<and> (get_country_by_name n (snd (delete_country_by_name n w))
                    = Inl (HTTPException 404 (Error_only ''Country not found''))
                  \<longleftrightarrow> (\<forall>x \<in> set (before @ after). \<not> ilike n (name x)))))"
proof -
  have absent: "delete_country_by_name n w
              = (Inl (HTTPException 404 (Error_only ''Country not found'')), w)"
    if "n \<notin> name ` set (table_rows (countries w))"
  proof -
    from that have "find (\<lambda>r. name r = n) (table_rows (countries w)) = None"
      by (auto simp: find_None_iff)
    then show ?thesis by (simp add: delete_country_by_name_def)
  qed
  have present: "\<exists>before r after.
                table_rows (countries w) = before @ r # after \<and> name r = n
              \<and> delete_country_by_name n w
                  = (Inr (), w\<lparr>countries := (countries w)\<lparr>table_rows := before @ after\<rparr>\<rparr>)
              \<and> n \<notin> name ` set (before @ after)
              \<and> (get_country_by_name n (snd (delete_country_by_name n w))
                    = Inl (HTTPException 404 (Error_only ''Country not found''))
                  \<longleftrightarrow> (\<forall>x \<in> set (before @ after). \<not> ilike n (name x)))"
    if "n \<in> name ` set (table_rows (countries w))"
  proof -
    from that obtain r where r: "r \<in> set (table_rows (countries w))" "name r = n"
      by auto
    then obtain before after where split: "table_rows (countries w) = before @ r # after"
      by (auto dest: split_list)
    from r(1) r(2) have "find (\<lambda>r. name r = n) (table_rows (countries w)) \<noteq> None"
      by (auto simp: find_None_iff)
    then have del: "delete_country_by_name n w
       = (Inr (), w\<lparr>countries := (countries w)
            \<lparr>table_rows := filter (\<lambda>r. name r \<noteq> n) (table_rows (countries w))\<rparr>\<rparr>)"
      by (auto simp: delete_country_by_name_def split: option.splits)
    from assms(1) split have d: "distinct (map name (before @ r # after))"
      by simp
    from filter_distinct_name [OF d] r(2) split
    have rest: "filter (\<lambda>r. name r \<noteq> n) (table_rows (countries w)) = before @ after"
      by simp
    from d r(2) have gone: "n \<notin> name ` set (before @ after)"
      by auto
    have "get_country_by_name n (snd (delete_country_by_name n w))
                    = Inl (HTTPException 404 (Error_only ''Country not found''))
                  \<longleftrightarrow> find (\<lambda>r. ilike n (name r)) (before @ after) = None"
      by (simp add: del rest get_country_by_name_def split: option.splits)
    then have "get_country_by_name n (snd (delete_country_by_name n w))
                    = Inl (HTTPException 404 (Error_only ''Country not found''))
                  \<longleftrightarrow> (\<forall>x \<in> set (before @ after). \<not> ilike n (name x))"
      by (simp only: find_None_iff) blast
    with split r(2) del rest gone show ?thesis
      by (intro exI [of _ before] exI [of _ r] exI [of _ after]) simp
  qed
  from absent present show ?thesis
    by blast
qed

theorem delete_country_by_name_exact_witness:
  "distinct (map name (table_rows (countries
       (sample_world [sample_row 1 ''India'' None, sample_row 2 ''Chad'' None]))))
   \<and> like_pattern_ok ''Chad''
   \<and> ''Chad'' \<in> name ` set (table_rows (countries
       (sample_world [sample_row 1 ''India'' None, sample_row 2 ''Chad'' None])))
   \<and> (\<exists>before r after.
         table_rows (countries
           (sample_world [sample_row 1 ''India'' None, sample_row 2 ''Chad'' None]))
           = before @ r # after \<and> name r = ''Chad''
       \<and> delete_country_by_name ''Chad''
           (sample_world [sample_row 1 ''India'' None, sample_row 2 ''Chad'' None])
           = (Inr (), (sample_world [sample_row 1 ''India'' None, sample_row 2 ''Chad'' None])
                \<lparr>countries := (countries
                    (sample_world [sample_row 1 ''India'' None, sample_row 2 ''Chad'' None]))
                  \<lparr>table_rows := before @ after\<rparr>\<rparr>)
       \<and> ''Chad'' \<notin> name ` set (before @ after)
       \<and> (get_country_by_name ''Chad'' (snd (delete_country_by_name ''Chad''
              (sample_world [sample_row 1 ''India'' None, sample_row 2 ''Chad'' None])))
            = Inl (HTTPException 404 (Error_only ''Country not found''))
          \<longleftrightarrow> (\<forall>x \<in> set (before @ after). \<not> ilike ''Chad'' (name x))))"
proof -
  let ?w = "sample_world [sample_row 1 ''India'' None, sample_row 2 ''Chad'' None]"
  have h1: "distinct (map name (table_rows (countries ?w)))"
    by (simp add: sample_defs)
  have h2: "like_pattern_ok ''Chad''"
    by simp
  have h3: "''Chad'' \<in> name ` set (table_rows (countries ?w))"
    by (simp add: sample_defs)
  from h1 h2 h3 delete_country_by_name_exact [OF h1 h2] show ?thesis
    by blast
qed

text \<open>The claim as stated fails on two names that differ in letter case: after India
  is deleted, the lookup of India finds INDIA.\<close>

theorem delete_country_by_name_counterexample:
  "fst (delete_country_by_name ''India''
          (sample_world [sample_row 1 ''India'' None, sample_row 2 ''INDIA'' None])) = Inr ()
   \<and> get_country_by_name ''India''
        (snd (delete_country_by_name ''India''
               (sample_world [sample_row 1 ''India'' None, sample_row 2 ''INDIA'' None])))
       = Inr (sample_row 2 ''INDIA'' None)"
  by (simp add: delete_country_by_name_def get_country_by_name_def ilike_def lower_def
        lower_char_def sample_defs)

end
